theory Spec2Isabelle
  imports Complex_Main "HOL-Library.AList" "HOL-Library.Sublist"
begin

section \<open>Values shared by the three providers\<close>

text \<open>
  The account files, the token responses and the stream events are JSON. A decoded JSON
  value is a \<open>jval\<close>; a Python \<open>dict\<close> is an association list in insertion order
  with distinct keys. Python floats are modelled as reals: rounding, infinities and NaN
  are outside the model.
\<close>

datatype jval =
    JNull
  | JBool bool
  | JInt int
  | JFloat real
  | JStr string
  | JArr "jval list"
  | JObj "(string \<times> jval) list"

type_synonym dict = "(string \<times> jval) list"

text \<open>Python truthiness (\<open>bool(v)\<close>, \<open>if v:\<close>, \<open>not v\<close>).\<close>

fun truthy :: "jval \<Rightarrow> bool" where
  "truthy JNull = False"
| "truthy (JBool b) = b"
| "truthy (JInt n) = (n \<noteq> 0)"
| "truthy (JFloat r) = (r \<noteq> 0)"
| "truthy (JStr s) = (s \<noteq> [])"
| "truthy (JArr xs) = (xs \<noteq> [])"
| "truthy (JObj kvs) = (kvs \<noteq> [])"

text \<open>\<open>d.get(k)\<close>, \<open>d.get(k, default)\<close> and \<open>d[k] = v\<close>.\<close>

definition dget :: "dict \<Rightarrow> string \<Rightarrow> jval" where
  "dget d k = (case map_of d k of None \<Rightarrow> JNull | Some v \<Rightarrow> v)"

definition dget_default :: "dict \<Rightarrow> string \<Rightarrow> jval \<Rightarrow> jval" where
  "dget_default d k dflt = (case map_of d k of None \<Rightarrow> dflt | Some v \<Rightarrow> v)"

definition dset :: "dict \<Rightarrow> string \<Rightarrow> jval \<Rightarrow> dict" where
  "dset d k v = AList.update k v d"

text \<open>A field of type \<open>str | None\<close> is a \<open>string option\<close>; stored in a dict it is a \<open>jval\<close>.\<close>

fun opt_str :: "string option \<Rightarrow> jval" where
  "opt_str None = JNull"
| "opt_str (Some s) = JStr s"

text \<open>Truthiness of a \<open>str | None\<close> field: \<open>None\<close> and the empty string are false.\<close>

fun known :: "string option \<Rightarrow> bool" where
  "known None = False"
| "known (Some s) = (s \<noteq> [])"

text \<open>
  \<open>next((i for i, x in enumerate(xs) if P x), None)\<close>, and the loop
  \<open>for i, x in enumerate(xs): if P x: ...; return\<close>: the first index that matches.
\<close>

fun first_index :: "('a \<Rightarrow> bool) \<Rightarrow> 'a list \<Rightarrow> nat option" where
  "first_index P [] = None"
| "first_index P (x # xs) = (if P x then Some 0 else map_option Suc (first_index P xs))"

text \<open>\<open>xs.pop(i)\<close> for an index in range.\<close>

definition pop :: "nat \<Rightarrow> 'a list \<Rightarrow> 'a list" where
  "pop i xs = take i xs @ drop (Suc i) xs"

section \<open>Credentials\<close>

text \<open>
  The dataclasses \<open>AntigravityAuth\<close> (auth.py), \<open>CodexAuth\<close> (codex\_auth.py) and
  \<open>CopilotAuth\<close> (copilot\_auth.py). Field names carry a provider prefix, since the three
  classes share names. \<open>time.time()\<close> is the argument \<open>now\<close>.
\<close>

record AntigravityAuth =
  ag_access_token :: string
  ag_refresh_token :: string
  ag_expires_at :: real
  ag_email :: "string option"
  ag_project_id :: "string option"
  ag_managed_project_id :: "string option"

record CodexAuth =
  cx_access_token :: string
  cx_refresh_token :: string
  cx_expires_at :: real
  cx_account_id :: "string option"
  cx_email :: "string option"

record CopilotAuth =
  cp_access_token :: string
  cp_expires_at :: real
  cp_account_id :: "string option"
  cp_login :: "string option"
  cp_email :: "string option"
  cp_provider :: "string option"
  cp_enterprise_url :: "string option"

definition AntigravityAuth_is_expired :: "AntigravityAuth \<Rightarrow> int \<Rightarrow> real \<Rightarrow> bool" where
  "AntigravityAuth_is_expired a buffer_seconds now =
     (now \<ge> ag_expires_at a - real_of_int buffer_seconds)"

definition CodexAuth_is_expired :: "CodexAuth \<Rightarrow> int \<Rightarrow> real \<Rightarrow> bool" where
  "CodexAuth_is_expired a buffer_seconds now =
     (now \<ge> cx_expires_at a - real_of_int buffer_seconds)"

definition CopilotAuth_is_expired :: "CopilotAuth \<Rightarrow> int \<Rightarrow> real \<Rightarrow> bool" where
  "CopilotAuth_is_expired a buffer_seconds now =
     (if cp_expires_at a = 0 then False
      else now \<ge> cp_expires_at a - real_of_int buffer_seconds)"

section \<open>Account storage\<close>

text \<open>
  \<open>AccountStorage\<close>, \<open>CodexAccountStorage\<close> and \<open>CopilotAccountStorage\<close> are the same
  dataclass (they differ in the default of \<open>version\<close> only), with the same
  \<open>get_active_account\<close>.
\<close>

record AccountStorage =
  version :: int
  accounts :: "dict list"
  active_index :: int

type_synonym CodexAccountStorage = AccountStorage
type_synonym CopilotAccountStorage = AccountStorage

definition get_active_account :: "AccountStorage \<Rightarrow> dict option" where
  "get_active_account s =
     (if 0 \<le> active_index s \<and> active_index s < int (length (accounts s))
      then Some (accounts s ! nat (active_index s))
      else (case accounts s of [] \<Rightarrow> None | a # _ \<Rightarrow> Some a))"

text \<open>
  An account file is absent, present but not readable as JSON (\<open>JSONDecodeError\<close>,
  \<open>OSError\<close>), or holds a storage. The Antigravity provider also reads a legacy file
  when the primary one is absent; every save writes the primary file.
\<close>

datatype 'a on_disk = Absent | Unreadable | Content 'a

fun read_file :: "'a on_disk \<Rightarrow> 'a option" where
  "read_file Absent = None"
| "read_file Unreadable = None"
| "read_file (Content s) = Some s"

record disk =
  accounts_path :: "AccountStorage on_disk"
  legacy_accounts_path :: "AccountStorage on_disk"

definition load_accounts :: "disk \<Rightarrow> AccountStorage option" where
  "load_accounts d =
     (if accounts_path d = Absent
      then (if legacy_accounts_path d \<noteq> Absent then read_file (legacy_accounts_path d) else None)
      else read_file (accounts_path d))"

definition save_accounts :: "AccountStorage \<Rightarrow> disk \<Rightarrow> disk" where
  "save_accounts storage d = d\<lparr>accounts_path := Content storage\<rparr>"

definition load_codex_accounts :: "CodexAccountStorage on_disk \<Rightarrow> CodexAccountStorage option" where
  "load_codex_accounts f = read_file f"

definition save_codex_accounts :: "CodexAccountStorage \<Rightarrow> CodexAccountStorage on_disk \<Rightarrow> CodexAccountStorage on_disk" where
  "save_codex_accounts storage f = Content storage"

definition load_copilot_accounts :: "CopilotAccountStorage on_disk \<Rightarrow> CopilotAccountStorage option" where
  "load_copilot_accounts f = read_file f"

definition save_copilot_accounts :: "CopilotAccountStorage \<Rightarrow> CopilotAccountStorage on_disk \<Rightarrow> CopilotAccountStorage on_disk" where
  "save_copilot_accounts storage f = Content storage"

subsection \<open>Removing an account\<close>

text \<open>
  The body shared by \<open>remove_account\<close>, \<open>remove_codex_account\<close> and
  \<open>remove_copilot_account\<close>: the first account whose field \<open>key\<close> equals the identity
  is popped and the active index is clamped from above. \<open>None\<close>: no account matched.
\<close>

definition remove_matching :: "string \<Rightarrow> string \<Rightarrow> AccountStorage \<Rightarrow> AccountStorage option" where
  "remove_matching key ident storage =
     (case first_index (\<lambda>acc. dget acc key = JStr ident) (accounts storage) of
        None \<Rightarrow> None
      | Some i \<Rightarrow>
          (let accs = pop i (accounts storage);
               ai = (if active_index storage \<ge> int (length accs)
                     then max 0 (int (length accs) - 1)
                     else active_index storage)
           in Some (storage\<lparr>accounts := accs, active_index := ai\<rparr>)))"

definition remove_account :: "string \<Rightarrow> disk \<Rightarrow> bool \<times> disk" where
  "remove_account email d =
     (case load_accounts d of
        None \<Rightarrow> (False, d)
      | Some storage \<Rightarrow>
          (case remove_matching ''email'' email storage of
             None \<Rightarrow> (False, d)
           | Some storage' \<Rightarrow> (True, save_accounts storage' d)))"

definition remove_codex_account :: "string \<Rightarrow> CodexAccountStorage on_disk \<Rightarrow> bool \<times> CodexAccountStorage on_disk" where
  "remove_codex_account account_id f =
     (case load_codex_accounts f of
        None \<Rightarrow> (False, f)
      | Some storage \<Rightarrow>
          (case remove_matching ''account_id'' account_id storage of
             None \<Rightarrow> (False, f)
           | Some storage' \<Rightarrow> (True, save_codex_accounts storage' f)))"

definition remove_copilot_account :: "string \<Rightarrow> CopilotAccountStorage on_disk \<Rightarrow> bool \<times> CopilotAccountStorage on_disk" where
  "remove_copilot_account account_id f =
     (case load_copilot_accounts f of
        None \<Rightarrow> (False, f)
      | Some storage \<Rightarrow>
          (case remove_matching ''account_id'' account_id storage of
             None \<Rightarrow> (False, f)
           | Some storage' \<Rightarrow> (True, save_copilot_accounts storage' f)))"

text \<open>
  What a removal leaves behind: one account fewer, the active index inside
  \<open>[0, len - 1]\<close> while accounts remain, and no active account in an empty list.
\<close>

definition reclamped :: "AccountStorage \<Rightarrow> AccountStorage \<Rightarrow> bool" where
  "reclamped s s' =
     (length (accounts s') = length (accounts s) - 1 \<and>
      (if accounts s' = [] then get_active_account s' = None
       else 0 \<le> active_index s' \<and> active_index s' \<le> int (length (accounts s')) - 1))"

section \<open>Device-code polling (copilot\_auth.py)\<close>












section \<open>Strings\<close>

text \<open>
  \<open>str.strip()\<close>, \<open>str.lower()\<close> and \<open>sub in s\<close> on ASCII text; \<open>str(n)\<close> of an
  integer. \<open>str(v)\<close> of a JSON value that is not a string goes through the parameter
  \<open>repr\<close> of the functions that need it.
\<close>

definition is_space :: "char \<Rightarrow> bool" where
  "is_space c = (c \<in> set [CHR '' '', CHR 0x09, CHR 0x0A, CHR 0x0B, CHR 0x0C, CHR 0x0D])"

definition strip :: "string \<Rightarrow> string" where
  "strip s = rev (dropWhile is_space (rev (dropWhile is_space s)))"

definition lower_char :: "char \<Rightarrow> char" where
  "lower_char c =
     (if 65 \<le> (of_char c :: nat) \<and> (of_char c :: nat) \<le> 90
      then char_of ((of_char c :: nat) + 32) else c)"

definition lower :: "string \<Rightarrow> string" where
  "lower s = map lower_char s"

fun contains :: "string \<Rightarrow> string \<Rightarrow> bool" where
  "contains sub [] = (sub = [])"
| "contains sub (c # cs) = (prefix sub (c # cs) \<or> contains sub cs)"

fun str_nat :: "nat \<Rightarrow> string" where
  "str_nat n = (if n < 10 then [char_of (48 + n)] else str_nat (n div 10) @ [char_of (48 + n mod 10)])"

definition str_int :: "int \<Rightarrow> string" where
  "str_int i = (if i < 0 then CHR ''-'' # str_nat (nat (- i)) else str_nat (nat i))"

definition str_of :: "(jval \<Rightarrow> string) \<Rightarrow> jval \<Rightarrow> string" where
  "str_of repr v = (case v of JStr s \<Rightarrow> s | _ \<Rightarrow> repr v)"

text \<open>\<open>a or b\<close> on values.\<close>

definition py_or :: "jval \<Rightarrow> jval \<Rightarrow> jval" where
  "py_or a b = (if truthy a then a else b)"

text \<open>\<open>sep.join(parts)\<close>.\<close>

fun join :: "string \<Rightarrow> string list \<Rightarrow> string" where
  "join sep [] = []"
| "join sep [x] = x"
| "join sep (x # y # ys) = x @ sep @ join sep (y # ys)"

definition QUOTE :: char where
  "QUOTE = CHR 0x27"

section \<open>Writing credentials back to the store\<close>

text \<open>
  \<open>_upsert_account_from_auth\<close> (auth.py) and \<open>_upsert_codex_account\<close> (codex\_auth.py);
  the leading underscore of a private name is dropped. \<open>int(time.time() * 1000)\<close> is the
  argument \<open>now_ms\<close>. Without a readable store the functions start from the default
  \<open>AccountStorage()\<close>. The search for the record to update (\<open>existing_idx\<close>,
  \<open>target_idx\<close>) is \<open>upsert_target\<close> and \<open>codex_upsert_target\<close>; \<open>stored\<close> and
  \<open>codex_stored\<close> are \<open>load_accounts() or AccountStorage()\<close>.
\<close>

definition stored :: "disk \<Rightarrow> AccountStorage" where
  "stored d = (case load_accounts d of
                 None \<Rightarrow> \<lparr>version = 3, accounts = [], active_index = 0\<rparr>
               | Some s \<Rightarrow> s)"

definition codex_stored :: "CodexAccountStorage on_disk \<Rightarrow> CodexAccountStorage" where
  "codex_stored f = (case load_codex_accounts f of
                       None \<Rightarrow> \<lparr>version = 1, accounts = [], active_index = 0\<rparr>
                     | Some s \<Rightarrow> s)"

definition upsert_target :: "AntigravityAuth \<Rightarrow> AccountStorage \<Rightarrow> nat option" where
  "upsert_target auth storage =
     (if known (ag_email auth)
      then first_index (\<lambda>acc. dget acc ''email'' = opt_str (ag_email auth)) (accounts storage)
      else None)"

text \<open>The dict appended for a new account (auth.py 197 to 204) and the in-place update (207 to 213).\<close>

definition new_account :: "AntigravityAuth \<Rightarrow> int \<Rightarrow> dict" where
  "new_account auth now_ms =
     [(''email'', opt_str (ag_email auth)),
      (''refreshToken'', JStr (ag_refresh_token auth)),
      (''projectId'', opt_str (ag_project_id auth)),
      (''managedProjectId'', opt_str (ag_managed_project_id auth)),
      (''addedAt'', JInt now_ms),
      (''lastUsed'', JInt now_ms)]"

definition updated_account :: "AntigravityAuth \<Rightarrow> int \<Rightarrow> dict \<Rightarrow> dict" where
  "updated_account auth now_ms account0 =
     (let account = dset account0 ''email''
            (if known (ag_email auth) then opt_str (ag_email auth) else dget account0 ''email'');
          account = dset account ''refreshToken'' (JStr (ag_refresh_token auth));
          account = dset account ''projectId'' (opt_str (ag_project_id auth));
          account = dset account ''managedProjectId'' (opt_str (ag_managed_project_id auth));
          account = dset account ''addedAt'' (dget_default account ''addedAt'' (JInt now_ms));
          account = dset account ''lastUsed'' (JInt now_ms)
      in account)"

definition upsert_account_from_auth :: "AntigravityAuth \<Rightarrow> int \<Rightarrow> disk \<Rightarrow> disk" where
  "upsert_account_from_auth auth now_ms d =
     (let storage = stored d;
          existing_idx = upsert_target auth storage
      in case existing_idx of
           None \<Rightarrow>
             (let accs = accounts storage @ [new_account auth now_ms]
              in save_accounts (storage\<lparr>accounts := accs, active_index := int (length accs) - 1\<rparr>) d)
         | Some i \<Rightarrow>
             save_accounts
               (storage\<lparr>accounts := (accounts storage)[i := updated_account auth now_ms (accounts storage ! i)],
                        active_index := int i\<rparr>) d)"

definition codex_upsert_target :: "CodexAuth \<Rightarrow> CodexAccountStorage \<Rightarrow> nat option" where
  "codex_upsert_target auth storage =
     (let target_idx =
            (if known (cx_account_id auth)
             then first_index (\<lambda>acc. dget acc ''account_id'' = opt_str (cx_account_id auth))
                    (accounts storage)
             else None)
      in if target_idx = None \<and> known (cx_email auth)
         then first_index (\<lambda>acc. dget acc ''email'' = opt_str (cx_email auth)) (accounts storage)
         else target_idx)"

text \<open>The dict appended (codex\_auth.py 166 to 172) and the in-place update (175 to 182).\<close>

definition codex_new_account :: "CodexAuth \<Rightarrow> int \<Rightarrow> dict" where
  "codex_new_account auth now_ms =
     [(''account_id'', opt_str (cx_account_id auth)),
      (''refresh_token'', JStr (cx_refresh_token auth)),
      (''email'', opt_str (cx_email auth)),
      (''addedAt'', JInt now_ms),
      (''lastUsed'', JInt now_ms)]"

definition codex_updated_account :: "CodexAuth \<Rightarrow> int \<Rightarrow> dict \<Rightarrow> dict" where
  "codex_updated_account auth now_ms account0 =
     (let account = dset account0 ''refresh_token'' (JStr (cx_refresh_token auth));
          account = dset account ''lastUsed'' (JInt now_ms);
          account = (if known (cx_account_id auth)
                     then dset account ''account_id'' (opt_str (cx_account_id auth))
                     else account);
          account = (if known (cx_email auth)
                     then dset account ''email'' (opt_str (cx_email auth))
                     else account);
          account = dset account ''addedAt'' (dget_default account ''addedAt'' (JInt now_ms))
      in account)"

definition upsert_codex_account ::
  "CodexAuth \<Rightarrow> int \<Rightarrow> CodexAccountStorage on_disk \<Rightarrow> CodexAccountStorage on_disk" where
  "upsert_codex_account auth now_ms f =
     (if cx_refresh_token auth = [] then f
      else
        (let storage = codex_stored f;
             target_idx = codex_upsert_target auth storage
         in case target_idx of
              None \<Rightarrow>
                (let accs = accounts storage @ [codex_new_account auth now_ms]
                 in save_codex_accounts
                      (storage\<lparr>accounts := accs, active_index := int (length accs) - 1\<rparr>) f)
            | Some i \<Rightarrow>
                save_codex_accounts
                  (storage\<lparr>accounts :=
                             (accounts storage)[i := codex_updated_account auth now_ms (accounts storage ! i)],
                           active_index := int i\<rparr>) f))"

text \<open>
  \<open>_clear_stored_refresh_token\<close> of auth.py and of codex\_auth.py: the index of the
  account to scrub, and the scrubbing.
\<close>

definition clear_target :: "AntigravityAuth \<Rightarrow> AccountStorage \<Rightarrow> nat option" where
  "clear_target auth storage =
     (let target_idx =
            (if known (ag_email auth)
             then first_index (\<lambda>acc. dget acc ''email'' = opt_str (ag_email auth)) (accounts storage)
             else None)
      in if target_idx = None \<and> 0 \<le> active_index storage
              \<and> active_index storage < int (length (accounts storage))
         then Some (nat (active_index storage))
         else target_idx)"

definition clear_stored_refresh_token :: "AntigravityAuth \<Rightarrow> int \<Rightarrow> disk \<Rightarrow> disk" where
  "clear_stored_refresh_token auth now_ms d =
     (case load_accounts d of
        None \<Rightarrow> d
      | Some storage \<Rightarrow>
          if accounts storage = [] then d
          else
            (case clear_target auth storage of
               None \<Rightarrow> d
             | Some target_idx \<Rightarrow>
                 (let account = accounts storage ! target_idx;
                      account = dset account ''refreshToken'' (JStr []);
                      account = dset account ''lastUsed'' (JInt now_ms)
                  in save_accounts (storage\<lparr>accounts := (accounts storage)[target_idx := account]\<rparr>) d)))"

definition codex_clear_target :: "CodexAuth \<Rightarrow> CodexAccountStorage \<Rightarrow> nat option" where
  "codex_clear_target auth storage =
     (let target_idx =
            (if known (cx_account_id auth)
             then first_index (\<lambda>acc. dget acc ''account_id'' = opt_str (cx_account_id auth))
                    (accounts storage)
             else None);
          target_idx =
            (if target_idx = None \<and> known (cx_email auth)
             then first_index (\<lambda>acc. dget acc ''email'' = opt_str (cx_email auth)) (accounts storage)
             else target_idx)
      in if target_idx = None \<and> 0 \<le> active_index storage
              \<and> active_index storage < int (length (accounts storage))
         then Some (nat (active_index storage))
         else target_idx)"

definition codex_clear_stored_refresh_token ::
  "CodexAuth \<Rightarrow> int \<Rightarrow> CodexAccountStorage on_disk \<Rightarrow> CodexAccountStorage on_disk" where
  "codex_clear_stored_refresh_token auth now_ms f =
     (case load_codex_accounts f of
        None \<Rightarrow> f
      | Some storage \<Rightarrow>
          if accounts storage = [] then f
          else
            (case codex_clear_target auth storage of
               None \<Rightarrow> f
             | Some target_idx \<Rightarrow>
                 (let account = accounts storage ! target_idx;
                      account = dset account ''refresh_token'' (JStr []);
                      account = dset account ''lastUsed'' (JInt now_ms)
                  in save_codex_accounts
                       (storage\<lparr>accounts := (accounts storage)[target_idx := account]\<rparr>) f)))"

section \<open>Refreshing a credential\<close>

text \<open>
  The answer of the token endpoint is the environment of \<open>refresh_access_token\<close>
  (auth.py) and \<open>refresh_codex_token\<close> (codex\_auth.py). A successful response carries
  its JSON body: not JSON at all (\<open>response.json()\<close> raises), JSON that is not an object
  (\<open>.get\<close> raises \<open>AttributeError\<close>), or an object whose fields \<open>access_token\<close>,
  \<open>refresh_token\<close> (strings) and \<open>expires_in\<close> (a number) are each present or absent.
  A failed response carries its status code, its \<open>content-type\<close> header, its text and
  the result of decoding the text as JSON (\<open>None\<close> when it is not JSON).

  \<open>time.time()\<close> is read once per refresh (\<open>start_time\<close>) and once per write to the
  store (\<open>now_ms\<close>). The metric counters and the log lines have no effect on results
  and are left out.
\<close>

record token_data =
  td_access_token :: "string option"
  td_refresh_token :: "string option"
  td_expires_in :: "real option"

datatype token_body = NotJson | NotAnObject | TokenData token_data

datatype token_response =
    TokenSuccess token_body
  | TokenFailure int string string "jval option"

datatype auth_error = ValueError string | JSONDecodeError | AttributeError

definition ANTIGRAVITY_DEFAULT_PROJECT_ID :: string where
  "ANTIGRAVITY_DEFAULT_PROJECT_ID = ''rising-fact-p41fc''"

definition is_default_project_id :: "string option \<Rightarrow> bool" where
  "is_default_project_id project_id =
     (known project_id \<and> project_id = Some ANTIGRAVITY_DEFAULT_PROJECT_ID)"

definition parse_oauth_error_payload ::
  "(jval \<Rightarrow> string) \<Rightarrow> string \<Rightarrow> jval option \<Rightarrow> string \<times> string" where
  "parse_oauth_error_payload repr text js =
     (if text = [] then ([], [])
      else
        (case js of
           None \<Rightarrow> ([], text)
         | Some (JObj payload) \<Rightarrow>
             (let error_value = dget payload ''error'';
                  code = (case error_value of
                            JStr s \<Rightarrow> s
                          | JObj e \<Rightarrow>
                              strip (str_of repr
                                (py_or (py_or (dget e ''status'') (dget e ''code'')) (JStr [])))
                          | _ \<Rightarrow> []);
                  description = (case error_value of
                                   JObj e \<Rightarrow> strip (str_of repr (py_or (dget e ''message'') (JStr [])))
                                 | _ \<Rightarrow> []);
                  description =
                    (if description \<noteq> [] then description
                     else strip (str_of repr
                            (py_or (py_or (dget payload ''error_description'') (dget payload ''message''))
                               (JStr []))))
              in (code, description))
         | Some _ \<Rightarrow> ([], [])))"

text \<open>The message of the error raised on revocation (auth.py 448 to 451).\<close>

definition revoked_message :: "AntigravityAuth \<Rightarrow> string" where
  "revoked_message auth =
     (let hint = (if known (ag_email auth) then '' (email='' @ the (ag_email auth) @ '')'' else [])
      in ''Refresh token revoked'' @ hint @ '' - run '' @ [QUOTE] @ ''antigravity login''
           @ [QUOTE] @ '' again'')"

definition refresh_access_token ::
  "(jval \<Rightarrow> string) \<Rightarrow> (string \<Rightarrow> string) \<Rightarrow> real \<Rightarrow> int \<Rightarrow> token_response
     \<Rightarrow> AntigravityAuth \<Rightarrow> disk \<Rightarrow> (auth_error + AntigravityAuth) \<times> disk" where
  "refresh_access_token repr fetch_project_id start_time now_ms response auth d =
     (if ag_refresh_token auth = [] then (Inl (ValueError ''Missing refresh token''), d)
      else
        (case response of
           TokenFailure status_code content_type text js \<Rightarrow>
             (case parse_oauth_error_payload repr text js of
                (error_code, error_description) \<Rightarrow>
                  if lower error_code = ''invalid_grant''
                  then (Inl (ValueError (revoked_message auth)),
                        clear_stored_refresh_token auth now_ms d)
                  else if error_code \<noteq> [] \<or> error_description \<noteq> []
                  then (Inl (ValueError (''Token refresh failed ('' @ str_int status_code @ ''): ''
                              @ join '': '' (filter (\<lambda>part. part \<noteq> []) [error_code, error_description]))),
                        d)
                  else (Inl (ValueError (''Token refresh failed: '' @ text)), d))
         | TokenSuccess NotJson \<Rightarrow> (Inl JSONDecodeError, d)
         | TokenSuccess NotAnObject \<Rightarrow> (Inl AttributeError, d)
         | TokenSuccess (TokenData token_data) \<Rightarrow>
             (let access_token = (case td_access_token token_data of None \<Rightarrow> [] | Some s \<Rightarrow> s);
                  project_id = (if known (ag_project_id auth) then the (ag_project_id auth) else []);
                  project_id =
                    (if project_id = [] \<or> is_default_project_id (Some project_id)
                     then (let fetched_project = fetch_project_id access_token
                           in if fetched_project \<noteq> [] then fetched_project
                              else if is_default_project_id (Some project_id) then []
                              else project_id)
                     else project_id);
                  refreshed =
                    \<lparr>ag_access_token = access_token,
                     ag_refresh_token = (case td_refresh_token token_data of
                                           None \<Rightarrow> ag_refresh_token auth | Some r \<Rightarrow> r),
                     ag_expires_at = start_time + (case td_expires_in token_data of
                                                     None \<Rightarrow> 3600 | Some e \<Rightarrow> e),
                     ag_email = ag_email auth,
                     ag_project_id = (if project_id \<noteq> [] then Some project_id else None),
                     ag_managed_project_id = ag_managed_project_id auth\<rparr>
              in (Inr refreshed, upsert_account_from_auth refreshed now_ms d))))"

subsection \<open>Codex\<close>

definition is_revoked_refresh_error :: "string \<Rightarrow> string \<Rightarrow> bool" where
  "is_revoked_refresh_error error_code error_message =
     (let normalized_code = lower (strip error_code) in
      if normalized_code \<in> set [''invalid_grant'', ''refresh_token_invalidated'',
                                  ''refresh_token_reused'', ''refresh_token_expired'']
      then True
      else
        (let normalized_message = lower (strip error_message);
             indicators = [''another client'', ''new token'', ''refresh token'', ''token was revoked'',
                           ''token revoked'', ''token invalidated'', ''already used'', ''expired'']
         in list_ex (\<lambda>token. contains token normalized_message) indicators))"

definition build_reauth_message :: "CodexAuth \<Rightarrow> string" where
  "build_reauth_message auth =
     (let account_parts =
            (if known (cx_email auth) then [''email='' @ the (cx_email auth)] else []) @
            (if known (cx_account_id auth) then [''account_id='' @ the (cx_account_id auth)] else []);
          account_hint = (if account_parts \<noteq> [] then '' ('' @ join '', '' account_parts @ '')'' else [])
      in ''Refresh token revoked'' @ account_hint @ '' - run '' @ [QUOTE] @ ''codex-auth login''
           @ [QUOTE] @ '' again'')"

text \<open>
  The error code and message that \<open>refresh_codex_token\<close> reads from a failed response
  (codex\_auth.py 403 to 418), given the decoded object \<open>data\<close>.
\<close>

definition codex_error_fields :: "(jval \<Rightarrow> string) \<Rightarrow> string \<Rightarrow> dict \<Rightarrow> string \<times> string" where
  "codex_error_fields repr text data =
     (let error_obj = dget data ''error'';
          error_code = (case error_obj of
                          JStr s \<Rightarrow> s
                        | JObj e \<Rightarrow> strip (str_of repr (dget_default e ''code'' (JStr [])))
                        | _ \<Rightarrow> []);
          error_message = (case error_obj of
                             JStr s \<Rightarrow> s
                           | JObj e \<Rightarrow> strip (str_of repr (dget_default e ''message'' (JStr [])))
                           | _ \<Rightarrow> []);
          error_code = (if error_code = []
                        then strip (str_of repr (dget_default data ''code'' (JStr [])))
                        else error_code);
          error_message =
            (if error_message = []
             then (let m = strip (str_of repr (dget_default data ''message'' (JStr [])))
                   in if m \<noteq> [] then m else text)
             else error_message)
      in (error_code, error_message))"

definition refresh_codex_token ::
  "(jval \<Rightarrow> string) \<Rightarrow> (string \<Rightarrow> string option) \<Rightarrow> (string \<Rightarrow> string option) \<Rightarrow> real \<Rightarrow> int
     \<Rightarrow> token_response \<Rightarrow> CodexAuth \<Rightarrow> CodexAccountStorage on_disk
     \<Rightarrow> (auth_error + CodexAuth) \<times> CodexAccountStorage on_disk" where
  "refresh_codex_token repr extract_account_id extract_account_email start_time now_ms response auth f =
     (if cx_refresh_token auth = [] then (Inl (ValueError ''Missing refresh token''), f)
      else
        (case response of
           TokenFailure status_code content_type text js \<Rightarrow>
             (case (if prefix ''application/json'' content_type then js else Some (JObj [])) of
                None \<Rightarrow> (Inl JSONDecodeError, f)
              | Some (JObj data) \<Rightarrow>
                  (case codex_error_fields repr text data of
                     (error_code, error_message) \<Rightarrow>
                       if is_revoked_refresh_error error_code error_message
                       then (Inl (ValueError (build_reauth_message auth)),
                             codex_clear_stored_refresh_token auth now_ms f)
                       else (Inl (ValueError (''Token refresh failed: '' @ text)), f))
              | Some _ \<Rightarrow> (Inl AttributeError, f))
         | TokenSuccess NotJson \<Rightarrow> (Inl JSONDecodeError, f)
         | TokenSuccess NotAnObject \<Rightarrow> (Inl AttributeError, f)
         | TokenSuccess (TokenData token_data) \<Rightarrow>
             (let access_token = (case td_access_token token_data of None \<Rightarrow> [] | Some s \<Rightarrow> s);
                  refreshed_account_id =
                    (if known (cx_account_id auth) then cx_account_id auth
                     else extract_account_id access_token);
                  refreshed_email =
                    (if known (cx_email auth) then cx_email auth
                     else extract_account_email access_token);
                  refreshed =
                    \<lparr>cx_access_token = access_token,
                     cx_refresh_token = (case td_refresh_token token_data of
                                           None \<Rightarrow> cx_refresh_token auth | Some r \<Rightarrow> r),
                     cx_expires_at = start_time + (case td_expires_in token_data of
                                                     None \<Rightarrow> 3600 | Some e \<Rightarrow> e),
                     cx_account_id = refreshed_account_id,
                     cx_email = refreshed_email\<rparr>
              in (Inr refreshed, upsert_codex_account refreshed now_ms f))))"

subsection \<open>The credential held by a chat model\<close>




section \<open>The request executor (chat\_model.py)\<close>

text \<open>
  \<open>ChatAntigravity._agenerate\<close> and \<open>ChatAntigravity._astream\<close> run the same loops: up
  to four outer attempts, each a pass over the endpoints in order. They differ in what
  they do with a 2xx response, which is the parameter \<open>env_on_success\<close> (given the
  attempt, the endpoint and the body, it yields how the call ends: the result, or the
  exception that propagates). The
  network and the credential module are the environment:
  \<^item> \<open>env_post attempt endpoint\<close> is the answer to the request sent to \<open>endpoint\<close> in
    outer attempt \<open>attempt\<close> (each pair is requested at most once in a run): a transport
    failure (\<open>httpx.RequestError\<close>) or a response with its status code, its
    \<open>retry-after\<close> header and the text that \<open>_read_response_text\<close> gives for it;
  \<open>response.raise_for_status()\<close> raises \<open>HTTPStatusError\<close> for every status outside
    200 to 299, as httpx does;
  \<^item> \<open>env_ensure_auth attempt self_auth\<close> is the result of \<open>self._ensure_auth()\<close>;
  \<^item> \<open>env_refresh\<close> is \<open>refresh_access_token\<close> and \<open>env_fetch_project_id\<close> is
    \<open>fetch_project_id\<close> (\<open>None\<close> when it raises);
  \<^item> \<open>env_project_override\<close> is \<open>self.project_id or _env_project_override()\<close>.
  The list of endpoints is a parameter; the source iterates over
  \<open>ANTIGRAVITY_ENDPOINT_FALLBACKS\<close>. The state keeps the trace of requests and sleeps.
\<close>

datatype retry_after = NoRetryAfter | UnparsableRetryAfter | RetryAfter real






definition ANTIGRAVITY_ENDPOINT_FALLBACKS :: "string list" where
  "ANTIGRAVITY_ENDPOINT_FALLBACKS =
     [''https://cloudcode-pa.googleapis.com'',
      ''https://daily-cloudcode-pa.sandbox.googleapis.com'',
      ''https://autopush-cloudcode-pa.sandbox.googleapis.com'']"



















section \<open>Streaming\<close>


subsection \<open>Antigravity (chat\_model.py 478 to 499)\<close>








subsection \<open>Codex (codex\_chat\_model.py 601 to 702)\<close>











subsection \<open>What a trace shows\<close>









subsection \<open>Concrete stores used by the examples\<close>

definition two_accounts :: "dict list" where
  "two_accounts =
     [[(''email'', JStr ''a@x''), (''account_id'', JStr ''acct-a''), (''refreshToken'', JStr ''rt-a'')],
      [(''email'', JStr ''b@x''), (''account_id'', JStr ''acct-b''), (''refreshToken'', JStr ''rt-b'')]]"

definition store_active_last :: AccountStorage where
  "store_active_last = \<lparr>version = 3, accounts = two_accounts, active_index = 1\<rparr>"

definition store_active_beyond :: AccountStorage where
  "store_active_beyond = \<lparr>version = 3, accounts = two_accounts, active_index = 7\<rparr>"

definition store_active_negative :: AccountStorage where
  "store_active_negative = \<lparr>version = 3, accounts = two_accounts, active_index = - 1\<rparr>"

definition disk_of :: "AccountStorage \<Rightarrow> disk" where
  "disk_of s = \<lparr>accounts_path = Content s, legacy_accounts_path = Absent\<rparr>"

definition pat_auth :: CopilotAuth where
  "pat_auth = \<lparr>cp_access_token = ''ghp_token'', cp_expires_at = 0, cp_account_id = Some ''42'',
     cp_login = Some ''octo'', cp_email = None, cp_provider = Some ''github-copilot'',
     cp_enterprise_url = None\<rparr>"

definition refreshed_a :: AntigravityAuth where
  "refreshed_a = \<lparr>ag_access_token = ''at-new'', ag_refresh_token = ''rt-new'', ag_expires_at = 5000,
     ag_email = Some ''a@x'', ag_project_id = Some ''proj'', ag_managed_project_id = None\<rparr>"

definition anonymous_auth :: AntigravityAuth where
  "anonymous_auth = \<lparr>ag_access_token = ''at-new'', ag_refresh_token = ''rt-new'', ag_expires_at = 5000,
     ag_email = None, ag_project_id = Some ''proj'', ag_managed_project_id = None\<rparr>"

definition codex_b :: CodexAuth where
  "codex_b = \<lparr>cx_access_token = ''at-new'', cx_refresh_token = ''rt-new'', cx_expires_at = 5000,
     cx_account_id = Some ''acct-b'', cx_email = None\<rparr>"

definition stale_a :: AntigravityAuth where
  "stale_a = \<lparr>ag_access_token = ''at-old'', ag_refresh_token = ''rt-a'', ag_expires_at = 1000,
     ag_email = Some ''a@x'', ag_project_id = Some ''proj'', ag_managed_project_id = None\<rparr>"

definition stale_codex_b :: CodexAuth where
  "stale_codex_b = \<lparr>cx_access_token = ''at-old'', cx_refresh_token = ''rt-b'', cx_expires_at = 1000,
     cx_account_id = Some ''acct-b'', cx_email = None\<rparr>"

definition token_without_refresh :: token_data where
  "token_without_refresh =
     \<lparr>td_access_token = Some ''at-new'', td_refresh_token = None, td_expires_in = Some 1800\<rparr>"












section \<open>Properties\<close>

subsection \<open>Helper facts\<close>

lemma first_index_None_iff: "first_index P xs = None \<longleftrightarrow> (\<forall>x \<in> set xs. \<not> P x)"
  by (induction xs) auto

lemma first_index_Some_less: "first_index P xs = Some i \<Longrightarrow> i < length xs \<and> P (xs ! i)"
  by (induction xs arbitrary: i) (auto split: if_splits)

lemma first_index_Some_first: "first_index P xs = Some i \<Longrightarrow> j < i \<Longrightarrow> \<not> P (xs ! j)"
proof (induction xs arbitrary: i j)
  case Nil
  then show ?case by simp
next
  case (Cons x xs)
  then show ?case by (cases j) (auto split: if_splits)
qed

lemma length_pop: "i < length xs \<Longrightarrow> length (pop i xs) = length xs - 1"
  by (simp add: pop_def)

lemma remove_matching_None_iff:
  "remove_matching key ident s = None \<longleftrightarrow> \<not> (\<exists>acc \<in> set (accounts s). dget acc key = JStr ident)"
proof (cases "first_index (\<lambda>acc. dget acc key = JStr ident) (accounts s)")
  case None
  then have "\<not> (\<exists>acc \<in> set (accounts s). dget acc key = JStr ident)"
    using first_index_None_iff [of "\<lambda>acc. dget acc key = JStr ident" "accounts s"] by simp
  with None show ?thesis
    by (simp add: remove_matching_def)
next
  case (Some i)
  then have "i < length (accounts s) \<and> dget (accounts s ! i) key = JStr ident"
    using first_index_Some_less [of "\<lambda>acc. dget acc key = JStr ident" "accounts s" i] by simp
  then have "\<exists>acc \<in> set (accounts s). dget acc key = JStr ident"
    using nth_mem by blast
  with Some show ?thesis
    by (simp add: remove_matching_def Let_def)
qed

lemma remove_matching_reclamped:
  assumes "remove_matching key ident s = Some s'" and "0 \<le> active_index s"
  shows "reclamped s s'"
proof -
  from assms obtain i where i: "first_index (\<lambda>acc. dget acc key = JStr ident) (accounts s) = Some i"
    by (auto simp: remove_matching_def split: option.splits)
  then have lt: "i < length (accounts s)"
    using first_index_Some_less by fastforce
  from assms i have acc: "accounts s' = pop i (accounts s)"
    by (auto simp: remove_matching_def Let_def)
  from assms i have ai: "active_index s' =
      (if active_index s \<ge> int (length (pop i (accounts s)))
       then max 0 (int (length (pop i (accounts s))) - 1) else active_index s)"
    by (auto simp: remove_matching_def Let_def)
  have len: "length (accounts s') = length (accounts s) - 1"
    using acc lt by (simp add: length_pop)
  have rng: "accounts s' \<noteq> [] \<Longrightarrow>
           0 \<le> active_index s' \<and> active_index s' \<le> int (length (accounts s')) - 1"
    using acc ai assms(2) by (cases "pop i (accounts s)") auto
  have emp: "accounts s' = [] \<Longrightarrow> get_active_account s' = None"
    by (simp add: get_active_account_def)
  from len rng emp show ?thesis
    by (simp add: reclamped_def)
qed

lemma remove_account_post:
  assumes "load_accounts d = Some s" and "0 \<le> active_index s"
  shows "(fst (remove_account e d) \<longleftrightarrow> (\<exists>acc \<in> set (accounts s). dget acc ''email'' = JStr e)) \<and>
         (fst (remove_account e d) \<longrightarrow>
            (\<exists>s'. load_accounts (snd (remove_account e d)) = Some s' \<and> reclamped s s'))"
proof (cases "remove_matching ''email'' e s")
  case None
  with assms remove_matching_None_iff [of "''email''" e s] show ?thesis
    by (simp add: remove_account_def)
next
  case (Some s')
  with assms have "load_accounts (snd (remove_account e d)) = Some s'"
    by (simp add: remove_account_def load_accounts_def save_accounts_def)
  moreover have "reclamped s s'"
    using Some assms(2) by (rule remove_matching_reclamped)
  moreover have "fst (remove_account e d)"
    using Some assms(1) by (simp add: remove_account_def)
  moreover have "\<exists>acc \<in> set (accounts s). dget acc ''email'' = JStr e"
    using Some remove_matching_None_iff [of "''email''" e s] by simp
  ultimately show ?thesis by blast
qed

lemma remove_codex_account_post:
  assumes "load_codex_accounts f = Some s" and "0 \<le> active_index s"
  shows "(fst (remove_codex_account e f) \<longleftrightarrow>
            (\<exists>acc \<in> set (accounts s). dget acc ''account_id'' = JStr e)) \<and>
         (fst (remove_codex_account e f) \<longrightarrow>
            (\<exists>s'. load_codex_accounts (snd (remove_codex_account e f)) = Some s' \<and> reclamped s s'))"
proof (cases "remove_matching ''account_id'' e s")
  case None
  with assms remove_matching_None_iff [of "''account_id''" e s] show ?thesis
    by (simp add: remove_codex_account_def)
next
  case (Some s')
  with assms have "load_codex_accounts (snd (remove_codex_account e f)) = Some s'"
    by (simp add: remove_codex_account_def load_codex_accounts_def save_codex_accounts_def)
  moreover have "reclamped s s'"
    using Some assms(2) by (rule remove_matching_reclamped)
  moreover have "fst (remove_codex_account e f)"
    using Some assms(1) by (simp add: remove_codex_account_def)
  moreover have "\<exists>acc \<in> set (accounts s). dget acc ''account_id'' = JStr e"
    using Some remove_matching_None_iff [of "''account_id''" e s] by simp
  ultimately show ?thesis by blast
qed

lemma remove_copilot_account_post:
  assumes "load_copilot_accounts f = Some s" and "0 \<le> active_index s"
  shows "(fst (remove_copilot_account e f) \<longleftrightarrow>
            (\<exists>acc \<in> set (accounts s). dget acc ''account_id'' = JStr e)) \<and>
         (fst (remove_copilot_account e f) \<longrightarrow>
            (\<exists>s'. load_copilot_accounts (snd (remove_copilot_account e f)) = Some s' \<and> reclamped s s'))"
proof (cases "remove_matching ''account_id'' e s")
  case None
  with assms remove_matching_None_iff [of "''account_id''" e s] show ?thesis
    by (simp add: remove_copilot_account_def)
next
  case (Some s')
  with assms have "load_copilot_accounts (snd (remove_copilot_account e f)) = Some s'"
    by (simp add: remove_copilot_account_def load_copilot_accounts_def save_copilot_accounts_def)
  moreover have "reclamped s s'"
    using Some assms(2) by (rule remove_matching_reclamped)
  moreover have "fst (remove_copilot_account e f)"
    using Some assms(1) by (simp add: remove_copilot_account_def)
  moreover have "\<exists>acc \<in> set (accounts s). dget acc ''account_id'' = JStr e"
    using Some remove_matching_None_iff [of "''account_id''" e s] by simp
  ultimately show ?thesis by blast
qed

subsection \<open>C10: the active account of a non-empty store\<close>

text \<open>
  C10. \<open>get_active_account\<close> returns no account exactly when the account list is empty.
  On a non-empty list it returns the account at \<open>active_index\<close> when the index is in
  \<open>[0, len - 1]\<close>, and falls back to the first account when the index is out of range.
\<close>

theorem get_active_account_total:
  "(get_active_account s = None \<longleftrightarrow> accounts s = []) \<and>
   (accounts s \<noteq> [] \<longrightarrow>
      \<not> (0 \<le> active_index s \<and> active_index s < int (length (accounts s))) \<longrightarrow>
      get_active_account s = Some (hd (accounts s))) \<and>
   (0 \<le> active_index s \<and> active_index s < int (length (accounts s)) \<longrightarrow>
      get_active_account s = Some (accounts s ! nat (active_index s)))"
  by (cases "accounts s") (auto simp: get_active_account_def)

theorem get_active_account_total_witness:
  "accounts store_active_beyond \<noteq> [] \<and>
   \<not> (0 \<le> active_index store_active_beyond \<and>
       active_index store_active_beyond < int (length (accounts store_active_beyond))) \<and>
   get_active_account store_active_beyond = Some (hd two_accounts) \<and>
   0 \<le> active_index store_active_last \<and>
   active_index store_active_last < int (length (accounts store_active_last)) \<and>
   get_active_account store_active_last = Some (two_accounts ! 1)"
  using get_active_account_total [of store_active_beyond]
        get_active_account_total [of store_active_last]
  by (simp add: store_active_beyond_def store_active_last_def two_accounts_def)

subsection \<open>C2: expiry of a credential\<close>

text \<open>
  C2 (as amended). For an Antigravity or a Codex credential, \<open>is_expired(buffer)\<close> is true
  exactly when \<open>now \<ge> expires_at - buffer\<close>. For a Copilot credential it is true exactly
  when \<open>expires_at\<close> is not 0 and \<open>now \<ge> expires_at - buffer\<close>: a Copilot credential
  whose \<open>expires_at\<close> is 0 never counts as expired.
\<close>

theorem is_expired_threshold:
  "(AntigravityAuth_is_expired a b now \<longleftrightarrow> now \<ge> ag_expires_at a - real_of_int b) \<and>
   (CodexAuth_is_expired c b now \<longleftrightarrow> now \<ge> cx_expires_at c - real_of_int b) \<and>
   (CopilotAuth_is_expired p b now \<longleftrightarrow>
      cp_expires_at p \<noteq> 0 \<and> now \<ge> cp_expires_at p - real_of_int b)"
  by (simp add: AntigravityAuth_is_expired_def CodexAuth_is_expired_def CopilotAuth_is_expired_def)

text \<open>
  The claim as stated fails for Copilot: a token with \<open>expires_at = 0\<close> is past the
  threshold at \<open>now = 100\<close> with the default buffer of 60, and \<open>is_expired\<close> is false.
\<close>

theorem is_expired_copilot_zero_counterexample:
  "100 \<ge> cp_expires_at pat_auth - real_of_int 60 \<and> \<not> CopilotAuth_is_expired pat_auth 60 100"
  by (simp add: CopilotAuth_is_expired_def pat_auth_def)

subsection \<open>C8: removing an account\<close>

text \<open>
  C8 (as amended). For each provider, on a store whose active index is not negative:
  \<open>remove\<close> returns true exactly when an account with that identity exists, and after a
  removal that succeeds the saved store has one account fewer, its active index lies in
  \<open>[0, len - 1]\<close> while accounts remain, and an empty list has no active account.
  Without a readable store \<open>remove\<close> returns false.
\<close>

theorem remove_reclamps_active_index:
  "(load_accounts d = Some s \<and> 0 \<le> active_index s \<longrightarrow>
      (fst (remove_account e d) \<longleftrightarrow> (\<exists>acc \<in> set (accounts s). dget acc ''email'' = JStr e)) \<and>
      (fst (remove_account e d) \<longrightarrow>
         (\<exists>s'. load_accounts (snd (remove_account e d)) = Some s' \<and> reclamped s s'))) \<and>
   (load_codex_accounts fc = Some sc \<and> 0 \<le> active_index sc \<longrightarrow>
      (fst (remove_codex_account e fc) \<longleftrightarrow>
         (\<exists>acc \<in> set (accounts sc). dget acc ''account_id'' = JStr e)) \<and>
      (fst (remove_codex_account e fc) \<longrightarrow>
         (\<exists>s'. load_codex_accounts (snd (remove_codex_account e fc)) = Some s' \<and> reclamped sc s'))) \<and>
   (load_copilot_accounts fp = Some sp \<and> 0 \<le> active_index sp \<longrightarrow>
      (fst (remove_copilot_account e fp) \<longleftrightarrow>
         (\<exists>acc \<in> set (accounts sp). dget acc ''account_id'' = JStr e)) \<and>
      (fst (remove_copilot_account e fp) \<longrightarrow>
         (\<exists>s'. load_copilot_accounts (snd (remove_copilot_account e fp)) = Some s' \<and>
            reclamped sp s'))) \<and>
   (load_accounts d = None \<longrightarrow> \<not> fst (remove_account e d)) \<and>
   (load_codex_accounts fc = None \<longrightarrow> \<not> fst (remove_codex_account e fc)) \<and>
   (load_copilot_accounts fp = None \<longrightarrow> \<not> fst (remove_copilot_account e fp))"
  using remove_account_post [of d s e] remove_codex_account_post [of fc sc e]
        remove_copilot_account_post [of fp sp e]
  by (simp add: remove_account_def remove_codex_account_def remove_copilot_account_def)

theorem remove_reclamps_active_index_witness:
  "load_accounts (disk_of store_active_last) = Some store_active_last \<and>
   0 \<le> active_index store_active_last \<and>
   fst (remove_account ''b@x'' (disk_of store_active_last)) \<and>
   load_accounts (snd (remove_account ''b@x'' (disk_of store_active_last)))
     = Some \<lparr>version = 3, accounts = [hd two_accounts], active_index = 0\<rparr> \<and>
   load_codex_accounts (Content store_active_beyond) = Some store_active_beyond \<and>
   0 \<le> active_index store_active_beyond \<and>
   fst (remove_codex_account ''acct-a'' (Content store_active_beyond)) \<and>
   load_codex_accounts (snd (remove_codex_account ''acct-a'' (Content store_active_beyond)))
     = Some \<lparr>version = 3, accounts = [two_accounts ! 1], active_index = 0\<rparr> \<and>
   load_copilot_accounts (Content store_active_last) = Some store_active_last \<and>
   \<not> fst (remove_copilot_account ''acct-c'' (Content store_active_last)) \<and>
   load_accounts \<lparr>accounts_path = Unreadable, legacy_accounts_path = Absent\<rparr> = None \<and>
   \<not> fst (remove_account ''a@x'' \<lparr>accounts_path = Unreadable, legacy_accounts_path = Absent\<rparr>)"
  using remove_reclamps_active_index [of "disk_of store_active_last" store_active_last "''b@x''"
          "Content store_active_beyond" store_active_beyond
          "Content store_active_last" store_active_last]
        remove_reclamps_active_index [of "\<lparr>accounts_path = Unreadable, legacy_accounts_path = Absent\<rparr>"
          store_active_last "''a@x''" "Content store_active_beyond" store_active_beyond
          "Content store_active_last" store_active_last]
  by (simp add: remove_account_def remove_codex_account_def remove_copilot_account_def
      remove_matching_def load_accounts_def save_accounts_def load_codex_accounts_def
      save_codex_accounts_def load_copilot_accounts_def disk_of_def store_active_last_def
      store_active_beyond_def two_accounts_def dget_def pop_def)

text \<open>
  The claim as stated fails on a store whose active index is negative (the file is read
  without validation): the clamp of \<open>remove\<close> only acts from above, so the index stays
  at \<open>- 1\<close> while one account remains.
\<close>

theorem remove_negative_index_counterexample:
  "fst (remove_account ''a@x'' (disk_of store_active_negative)) \<and>
   accounts (the (load_accounts (snd (remove_account ''a@x'' (disk_of store_active_negative))))) \<noteq> [] \<and>
   \<not> (0 \<le> active_index (the (load_accounts (snd (remove_account ''a@x'' (disk_of store_active_negative))))))"
  by (simp add: remove_account_def remove_matching_def load_accounts_def save_accounts_def
      disk_of_def store_active_negative_def two_accounts_def dget_def pop_def)







subsection \<open>C9: device-code polling and \<open>slow_down\<close>\<close>



lemma dget_dset: "dget (dset d k v) k' = (if k' = k then v else dget d k')"
  by (simp add: dget_def dset_def update_conv')

lemma first_index_Some_iff:
  "first_index P xs = Some i \<longleftrightarrow> i < length xs \<and> P (xs ! i) \<and> (\<forall>j<i. \<not> P (xs ! j))"
proof (induction xs arbitrary: i)
  case Nil
  then show ?case by simp
next
  case (Cons x xs)
  show ?case
  proof (cases "P x")
    case True
    then show ?thesis by (cases i) auto
  next
    case False
    show ?thesis
    proof (cases i)
      case 0
      with False show ?thesis by auto
    next
      case (Suc k)
      have "(\<forall>j<Suc k. \<not> P ((x # xs) ! j)) \<longleftrightarrow> (\<forall>j<k. \<not> P (xs ! j))"
        using False by (auto simp: less_Suc_eq_0_disj)
      with False Suc Cons.IH [of k] show ?thesis by auto
    qed
  qed
qed

lemma first_index_update:
  assumes "first_index P xs = Some i" and "P y"
  shows "first_index P (xs[i := y]) = Some i"
  using assms by (auto simp: first_index_Some_iff nth_list_update)

lemma first_index_append_new:
  assumes "first_index P xs = None" and "P y"
  shows "first_index P (xs @ [y]) = Some (length xs)"
  using assms by (auto simp: first_index_Some_iff first_index_None_iff nth_append)

lemma dget_default_dset:
  "dget_default (dset d k v) k' x = (if k' = k then v else dget_default d k' x)"
  by (simp add: dget_default_def dset_def update_conv')

lemma updated_account_fields:
  "dget (updated_account auth t acc) ''refreshToken'' = JStr (ag_refresh_token auth)"
  "known (ag_email auth) \<Longrightarrow> dget (updated_account auth t acc) ''email'' = opt_str (ag_email auth)"
  by (simp_all add: updated_account_def Let_def dget_dset)

lemma new_account_fields:
  "dget (new_account auth t) ''refreshToken'' = JStr (ag_refresh_token auth)"
  "dget (new_account auth t) ''email'' = opt_str (ag_email auth)"
  by (simp_all add: new_account_def dget_def)

lemma codex_updated_account_fields:
  "dget (codex_updated_account auth t acc) ''refresh_token'' = JStr (cx_refresh_token auth)"
  "known (cx_account_id auth) \<Longrightarrow>
     dget (codex_updated_account auth t acc) ''account_id'' = opt_str (cx_account_id auth)"
  "known (cx_email auth) \<Longrightarrow>
     dget (codex_updated_account auth t acc) ''email'' = opt_str (cx_email auth)"
  "\<not> known (cx_account_id auth) \<Longrightarrow>
     dget (codex_updated_account auth t acc) ''account_id'' = dget acc ''account_id''"
  "\<not> known (cx_email auth) \<Longrightarrow>
     dget (codex_updated_account auth t acc) ''email'' = dget acc ''email''"
  by (simp_all add: codex_updated_account_def Let_def dget_dset)

lemma codex_new_account_fields:
  "dget (codex_new_account auth t) ''refresh_token'' = JStr (cx_refresh_token auth)"
  "dget (codex_new_account auth t) ''account_id'' = opt_str (cx_account_id auth)"
  "dget (codex_new_account auth t) ''email'' = opt_str (cx_email auth)"
  by (simp_all add: codex_new_account_def dget_def)

lemma stored_save_accounts [simp]:
  "load_accounts (save_accounts s d) = Some s" "stored (save_accounts s d) = s"
  by (simp_all add: stored_def load_accounts_def save_accounts_def)

lemma codex_stored_save [simp]:
  "load_codex_accounts (save_codex_accounts s f) = Some s" "codex_stored (save_codex_accounts s f) = s"
  by (simp_all add: codex_stored_def load_codex_accounts_def save_codex_accounts_def)

lemma upsert_found:
  assumes "upsert_target auth (stored d) = Some i"
  shows "stored (upsert_account_from_auth auth t d) =
           (stored d)\<lparr>accounts := (accounts (stored d))[i := updated_account auth t (accounts (stored d) ! i)],
                      active_index := int i\<rparr>"
    and "load_accounts (upsert_account_from_auth auth t d) = Some (stored (upsert_account_from_auth auth t d))"
    and "i < length (accounts (stored d))" and "known (ag_email auth)"
proof -
  show "stored (upsert_account_from_auth auth t d) =
           (stored d)\<lparr>accounts := (accounts (stored d))[i := updated_account auth t (accounts (stored d) ! i)],
                      active_index := int i\<rparr>"
    using assms by (simp add: upsert_account_from_auth_def Let_def)
  show "load_accounts (upsert_account_from_auth auth t d) = Some (stored (upsert_account_from_auth auth t d))"
    using assms by (simp add: upsert_account_from_auth_def Let_def)
  show k: "known (ag_email auth)"
    using assms by (simp add: upsert_target_def split: if_splits)
  show "i < length (accounts (stored d))"
    using assms k by (simp add: upsert_target_def first_index_Some_iff)
qed

lemma upsert_appended:
  assumes "upsert_target auth (stored d) = None"
  shows "stored (upsert_account_from_auth auth t d) =
           (stored d)\<lparr>accounts := accounts (stored d) @ [new_account auth t],
                      active_index := int (length (accounts (stored d)))\<rparr>"
    and "load_accounts (upsert_account_from_auth auth t d) = Some (stored (upsert_account_from_auth auth t d))"
  using assms by (simp_all add: upsert_account_from_auth_def Let_def)

lemma upsert_target_after:
  assumes "known (ag_email auth)" and "ag_email auth' = ag_email auth"
  shows "upsert_target auth' (stored (upsert_account_from_auth auth t d))
           = Some (nat (active_index (stored (upsert_account_from_auth auth t d))))"
proof (cases "upsert_target auth (stored d)")
  case None
  then have "first_index (\<lambda>acc. dget acc ''email'' = opt_str (ag_email auth)) (accounts (stored d)) = None"
    using assms(1) by (simp add: upsert_target_def)
  then have "first_index (\<lambda>acc. dget acc ''email'' = opt_str (ag_email auth))
               (accounts (stored d) @ [new_account auth t]) = Some (length (accounts (stored d)))"
    by (rule first_index_append_new) (simp add: new_account_fields)
  with None assms show ?thesis
    by (simp add: upsert_appended upsert_target_def)
next
  case (Some i)
  then have "first_index (\<lambda>acc. dget acc ''email'' = opt_str (ag_email auth)) (accounts (stored d)) = Some i"
    using assms(1) by (simp add: upsert_target_def)
  then have "first_index (\<lambda>acc. dget acc ''email'' = opt_str (ag_email auth))
               ((accounts (stored d))[i := updated_account auth t (accounts (stored d) ! i)]) = Some i"
    by (rule first_index_update) (simp add: updated_account_fields assms(1))
  with Some assms show ?thesis
    by (simp add: upsert_found(1) upsert_target_def)
qed

lemma first_index_update_fresh:
  assumes "first_index P xs = None" and "j < length xs" and "P y"
  shows "first_index P (xs[j := y]) = Some j"
  using assms by (auto simp: first_index_Some_iff first_index_None_iff nth_list_update)

lemma codex_upsert_found:
  assumes "codex_upsert_target auth (codex_stored f) = Some i" and "cx_refresh_token auth \<noteq> []"
  shows "codex_stored (upsert_codex_account auth t f) =
           (codex_stored f)\<lparr>accounts :=
               (accounts (codex_stored f))[i := codex_updated_account auth t (accounts (codex_stored f) ! i)],
             active_index := int i\<rparr>"
    and "load_codex_accounts (upsert_codex_account auth t f)
           = Some (codex_stored (upsert_codex_account auth t f))"
    and "i < length (accounts (codex_stored f))"
proof -
  show "codex_stored (upsert_codex_account auth t f) =
           (codex_stored f)\<lparr>accounts :=
               (accounts (codex_stored f))[i := codex_updated_account auth t (accounts (codex_stored f) ! i)],
             active_index := int i\<rparr>"
    using assms by (simp add: upsert_codex_account_def Let_def)
  show "load_codex_accounts (upsert_codex_account auth t f)
           = Some (codex_stored (upsert_codex_account auth t f))"
    using assms by (simp add: upsert_codex_account_def Let_def)
  show "i < length (accounts (codex_stored f))"
    using assms(1) by (auto simp: codex_upsert_target_def Let_def first_index_Some_iff split: if_splits)
qed

lemma codex_upsert_appended:
  assumes "codex_upsert_target auth (codex_stored f) = None" and "cx_refresh_token auth \<noteq> []"
  shows "codex_stored (upsert_codex_account auth t f) =
           (codex_stored f)\<lparr>accounts := accounts (codex_stored f) @ [codex_new_account auth t],
                            active_index := int (length (accounts (codex_stored f)))\<rparr>"
    and "load_codex_accounts (upsert_codex_account auth t f)
           = Some (codex_stored (upsert_codex_account auth t f))"
  using assms by (simp_all add: upsert_codex_account_def Let_def)

lemma codex_upsert_target_known_id:
  "known (cx_account_id auth) \<Longrightarrow>
     first_index (\<lambda>acc. dget acc ''account_id'' = opt_str (cx_account_id auth)) (accounts s) = Some k \<Longrightarrow>
     codex_upsert_target auth s = Some k"
  by (simp add: codex_upsert_target_def)

lemma codex_upsert_target_known_id_none:
  "known (cx_account_id auth) \<Longrightarrow>
     first_index (\<lambda>acc. dget acc ''account_id'' = opt_str (cx_account_id auth)) (accounts s) = None \<Longrightarrow>
     codex_upsert_target auth s =
       (if known (cx_email auth)
        then first_index (\<lambda>acc. dget acc ''email'' = opt_str (cx_email auth)) (accounts s) else None)"
  by (simp add: codex_upsert_target_def)

lemma codex_upsert_target_unknown_id:
  "\<not> known (cx_account_id auth) \<Longrightarrow>
     codex_upsert_target auth s =
       (if known (cx_email auth)
        then first_index (\<lambda>acc. dget acc ''email'' = opt_str (cx_email auth)) (accounts s) else None)"
  by (simp add: codex_upsert_target_def)

lemma codex_upsert_target_after:
  assumes tok: "cx_refresh_token auth \<noteq> []"
    and ident: "known (cx_account_id auth) \<or> known (cx_email auth)"
    and same: "cx_account_id auth' = cx_account_id auth" "cx_email auth' = cx_email auth"
  shows "codex_upsert_target auth' (codex_stored (upsert_codex_account auth t f))
           = Some (nat (active_index (codex_stored (upsert_codex_account auth t f))))"
proof -
  let ?xs = "accounts (codex_stored f)"
  let ?byId = "\<lambda>acc. dget acc ''account_id'' = opt_str (cx_account_id auth)"
  let ?byEmail = "\<lambda>acc. dget acc ''email'' = opt_str (cx_email auth)"
  let ?s1 = "codex_stored (upsert_codex_account auth t f)"
  have tgt': "codex_upsert_target auth' s = codex_upsert_target auth s" for s
    unfolding codex_upsert_target_def same by (rule refl)
  show ?thesis
  proof (cases "codex_upsert_target auth (codex_stored f)")
    case None
    have s1: "accounts ?s1 = ?xs @ [codex_new_account auth t]"
         "active_index ?s1 = int (length ?xs)"
      by (simp_all add: codex_upsert_appended(1) [OF None tok])
    show ?thesis
    proof (cases "known (cx_account_id auth)")
      case True
      have "first_index ?byId ?xs = None"
      proof (cases "first_index ?byId ?xs")
        case (Some k)
        from codex_upsert_target_known_id [OF True Some] None show ?thesis by simp
      qed simp
      then have "first_index ?byId (?xs @ [codex_new_account auth t]) = Some (length ?xs)"
        by (rule first_index_append_new) (simp add: codex_new_account_fields)
      then have "first_index ?byId (accounts ?s1) = Some (length ?xs)"
        by (simp only: s1)
      from codex_upsert_target_known_id [OF True this] show ?thesis
        by (simp only: tgt' s1 nat_int)
    next
      case False
      with ident have e: "known (cx_email auth)" by simp
      from None have "first_index ?byEmail ?xs = None"
        by (simp only: codex_upsert_target_unknown_id [OF False] e if_True)
      then have "first_index ?byEmail (?xs @ [codex_new_account auth t]) = Some (length ?xs)"
        by (rule first_index_append_new) (simp add: codex_new_account_fields)
      then have "first_index ?byEmail (accounts ?s1) = Some (length ?xs)"
        by (simp only: s1)
      then show ?thesis
        by (simp only: tgt' codex_upsert_target_unknown_id [OF False] e if_True s1 nat_int)
    qed
  next
    case (Some i)
    have lt: "i < length ?xs" using codex_upsert_found(3) [OF Some tok] .
    let ?y = "codex_updated_account auth t (?xs ! i)"
    have s1: "accounts ?s1 = ?xs[i := ?y]" "active_index ?s1 = int i"
      by (simp_all add: codex_upsert_found(1) [OF Some tok])
    show ?thesis
    proof (cases "known (cx_account_id auth)")
      case True
      have y: "?byId ?y" using True by (simp add: codex_updated_account_fields)
      have "first_index ?byId (?xs[i := ?y]) = Some i"
      proof (cases "first_index ?byId ?xs")
        case None
        show ?thesis
          by (rule first_index_update_fresh [where P = "?byId" and y = "?y", OF None lt y])
      next
        case inner: (Some k)
        from codex_upsert_target_known_id [OF True inner] Some have "k = i" by simp
        with inner have "first_index ?byId ?xs = Some i" by simp
        then show ?thesis
          by (rule first_index_update [where P = "?byId" and y = "?y", OF _ y])
      qed
      then have "first_index ?byId (accounts ?s1) = Some i"
        by (simp only: s1)
      from codex_upsert_target_known_id [OF True this] show ?thesis
        by (simp only: tgt' s1 nat_int)
    next
      case False
      with ident have e: "known (cx_email auth)" by simp
      have y: "?byEmail ?y" using e by (simp add: codex_updated_account_fields)
      from Some have "first_index ?byEmail ?xs = Some i"
        by (simp only: codex_upsert_target_unknown_id [OF False] e if_True)
      then have "first_index ?byEmail (?xs[i := ?y]) = Some i"
        by (rule first_index_update [where P = "?byEmail" and y = "?y", OF _ y])
      then have "first_index ?byEmail (accounts ?s1) = Some i"
        by (simp only: s1)
      then show ?thesis
        by (simp only: tgt' codex_upsert_target_unknown_id [OF False] e if_True s1 nat_int)
    qed
  qed
qed
lemma get_active_account_in_range:
  "i < length (accounts s) \<Longrightarrow> active_index s = int i \<Longrightarrow> get_active_account s = Some (accounts s ! i)"
  by (simp add: get_active_account_def)

subsection \<open>C5: upsert by account identity\<close>

text \<open>
  C5 (as amended). An upsert looks for the record to update by account identity only:
  Antigravity by a non-empty email, Codex by a non-empty account id and then by a non-empty
  email (a Codex credential without refresh token is not stored at all). The first
  matching record is updated in place; when no record matches, or the identity is unknown,
  a new record is appended (there is no fall-back to the active record). In both cases the
  upserted record holds the credential's refresh token and becomes the active one. When
  the identity is known, a second upsert of the same identity hits the record of the
  first: the number of records and the active index stay the same.
\<close>

theorem upsert_by_identity:
  "load_accounts (upsert_account_from_auth auth t d)
     = Some (stored (upsert_account_from_auth auth t d)) \<and>
   (\<forall>i. upsert_target auth (stored d) = Some i \<longrightarrow>
      known (ag_email auth) \<and>
      first_index (\<lambda>acc. dget acc ''email'' = opt_str (ag_email auth)) (accounts (stored d)) = Some i \<and>
      length (accounts (stored (upsert_account_from_auth auth t d))) = length (accounts (stored d)) \<and>
      active_index (stored (upsert_account_from_auth auth t d)) = int i \<and>
      get_active_account (stored (upsert_account_from_auth auth t d))
        = Some (updated_account auth t (accounts (stored d) ! i)) \<and>
      dget (updated_account auth t (accounts (stored d) ! i)) ''email'' = opt_str (ag_email auth) \<and>
      dget (updated_account auth t (accounts (stored d) ! i)) ''refreshToken''
        = JStr (ag_refresh_token auth)) \<and>
   (upsert_target auth (stored d) = None \<longrightarrow>
      accounts (stored (upsert_account_from_auth auth t d))
        = accounts (stored d) @ [new_account auth t] \<and>
      active_index (stored (upsert_account_from_auth auth t d)) = int (length (accounts (stored d))) \<and>
      get_active_account (stored (upsert_account_from_auth auth t d)) = Some (new_account auth t) \<and>
      dget (new_account auth t) ''refreshToken'' = JStr (ag_refresh_token auth)) \<and>
   (\<not> known (ag_email auth) \<longrightarrow> upsert_target auth (stored d) = None) \<and>
   (known (ag_email auth) \<and> ag_email auth' = ag_email auth \<longrightarrow>
      length (accounts (stored (upsert_account_from_auth auth' t' (upsert_account_from_auth auth t d))))
        = length (accounts (stored (upsert_account_from_auth auth t d))) \<and>
      active_index (stored (upsert_account_from_auth auth' t' (upsert_account_from_auth auth t d)))
        = active_index (stored (upsert_account_from_auth auth t d))) \<and>
   (cx_refresh_token c = [] \<longrightarrow> upsert_codex_account c t f = f) \<and>
   (cx_refresh_token c \<noteq> [] \<longrightarrow>
      load_codex_accounts (upsert_codex_account c t f)
        = Some (codex_stored (upsert_codex_account c t f)) \<and>
      (\<forall>i. codex_upsert_target c (codex_stored f) = Some i \<longrightarrow>
         (known (cx_account_id c) \<or> known (cx_email c)) \<and>
         length (accounts (codex_stored (upsert_codex_account c t f)))
           = length (accounts (codex_stored f)) \<and>
         active_index (codex_stored (upsert_codex_account c t f)) = int i \<and>
         get_active_account (codex_stored (upsert_codex_account c t f))
           = Some (codex_updated_account c t (accounts (codex_stored f) ! i)) \<and>
         dget (codex_updated_account c t (accounts (codex_stored f) ! i)) ''refresh_token''
           = JStr (cx_refresh_token c)) \<and>
      (codex_upsert_target c (codex_stored f) = None \<longrightarrow>
         accounts (codex_stored (upsert_codex_account c t f))
           = accounts (codex_stored f) @ [codex_new_account c t] \<and>
         active_index (codex_stored (upsert_codex_account c t f))
           = int (length (accounts (codex_stored f))) \<and>
         get_active_account (codex_stored (upsert_codex_account c t f))
           = Some (codex_new_account c t) \<and>
         dget (codex_new_account c t) ''refresh_token'' = JStr (cx_refresh_token c)) \<and>
      (\<not> known (cx_account_id c) \<and> \<not> known (cx_email c) \<longrightarrow>
         codex_upsert_target c (codex_stored f) = None) \<and>
      ((known (cx_account_id c) \<or> known (cx_email c)) \<and> cx_refresh_token c' \<noteq> [] \<and>
       cx_account_id c' = cx_account_id c \<and> cx_email c' = cx_email c \<longrightarrow>
         length (accounts (codex_stored (upsert_codex_account c' t' (upsert_codex_account c t f))))
           = length (accounts (codex_stored (upsert_codex_account c t f))) \<and>
         active_index (codex_stored (upsert_codex_account c' t' (upsert_codex_account c t f)))
           = active_index (codex_stored (upsert_codex_account c t f))))"
proof -
  let ?d1 = "upsert_account_from_auth auth t d"
  let ?f1 = "upsert_codex_account c t f"
  have a1: "load_accounts ?d1 = Some (stored ?d1)"
    by (cases "upsert_target auth (stored d)") (simp_all add: upsert_found(2) upsert_appended(2))
  have a2: "known (ag_email auth) \<and>
      first_index (\<lambda>acc. dget acc ''email'' = opt_str (ag_email auth)) (accounts (stored d)) = Some i \<and>
      length (accounts (stored ?d1)) = length (accounts (stored d)) \<and>
      active_index (stored ?d1) = int i \<and>
      get_active_account (stored ?d1) = Some (updated_account auth t (accounts (stored d) ! i)) \<and>
      dget (updated_account auth t (accounts (stored d) ! i)) ''email'' = opt_str (ag_email auth) \<and>
      dget (updated_account auth t (accounts (stored d) ! i)) ''refreshToken''
        = JStr (ag_refresh_token auth)"
    if h: "upsert_target auth (stored d) = Some i" for i
  proof -
    note f = upsert_found [OF h]
    have "get_active_account (stored ?d1) = Some (accounts (stored ?d1) ! i)"
      by (rule get_active_account_in_range) (simp_all add: f(1) f(3))
    moreover have "first_index (\<lambda>acc. dget acc ''email'' = opt_str (ag_email auth)) (accounts (stored d)) = Some i"
      using h f(4) by (simp add: upsert_target_def)
    ultimately show ?thesis
      using f(3) f(4) by (simp add: f(1) updated_account_fields)
  qed
  have a3: "accounts (stored ?d1) = accounts (stored d) @ [new_account auth t] \<and>
      active_index (stored ?d1) = int (length (accounts (stored d))) \<and>
      get_active_account (stored ?d1) = Some (new_account auth t) \<and>
      dget (new_account auth t) ''refreshToken'' = JStr (ag_refresh_token auth)"
    if h: "upsert_target auth (stored d) = None"
  proof -
    note f = upsert_appended [OF h]
    have "get_active_account (stored ?d1) = Some (accounts (stored ?d1) ! length (accounts (stored d)))"
      by (rule get_active_account_in_range) (simp_all add: f(1))
    then show ?thesis
      by (simp add: f(1) new_account_fields)
  qed
  have a4: "\<not> known (ag_email auth) \<Longrightarrow> upsert_target auth (stored d) = None"
    by (simp add: upsert_target_def)
  have a5: "length (accounts (stored (upsert_account_from_auth auth' t' ?d1))) = length (accounts (stored ?d1)) \<and>
      active_index (stored (upsert_account_from_auth auth' t' ?d1)) = active_index (stored ?d1)"
    if h: "known (ag_email auth) \<and> ag_email auth' = ag_email auth"
  proof -
    have tgt: "upsert_target auth' (stored ?d1) = Some (nat (active_index (stored ?d1)))"
      using h by (simp add: upsert_target_after)
    have "0 \<le> active_index (stored ?d1)"
      by (cases "upsert_target auth (stored d)") (simp_all add: upsert_found(1) upsert_appended(1))
    with upsert_found(1) [OF tgt, of t'] show ?thesis by simp
  qed
  have c0: "cx_refresh_token c = [] \<Longrightarrow> upsert_codex_account c t f = f"
    by (simp add: upsert_codex_account_def)
  have c1: "load_codex_accounts ?f1 = Some (codex_stored ?f1)" if tok: "cx_refresh_token c \<noteq> []"
    by (cases "codex_upsert_target c (codex_stored f)")
       (simp_all add: codex_upsert_found(2) codex_upsert_appended(2) tok)
  have c2: "(known (cx_account_id c) \<or> known (cx_email c)) \<and>
         length (accounts (codex_stored ?f1)) = length (accounts (codex_stored f)) \<and>
         active_index (codex_stored ?f1) = int i \<and>
         get_active_account (codex_stored ?f1)
           = Some (codex_updated_account c t (accounts (codex_stored f) ! i)) \<and>
         dget (codex_updated_account c t (accounts (codex_stored f) ! i)) ''refresh_token''
           = JStr (cx_refresh_token c)"
    if tok: "cx_refresh_token c \<noteq> []" and h: "codex_upsert_target c (codex_stored f) = Some i" for i
  proof -
    note f = codex_upsert_found [OF h tok]
    have "get_active_account (codex_stored ?f1) = Some (accounts (codex_stored ?f1) ! i)"
      by (rule get_active_account_in_range) (simp_all add: f(1) f(3))
    moreover have "known (cx_account_id c) \<or> known (cx_email c)"
      using h by (auto simp: codex_upsert_target_def split: if_splits)
    ultimately show ?thesis
      using f(3) by (simp add: f(1) codex_updated_account_fields)
  qed
  have c3: "accounts (codex_stored ?f1) = accounts (codex_stored f) @ [codex_new_account c t] \<and>
         active_index (codex_stored ?f1) = int (length (accounts (codex_stored f))) \<and>
         get_active_account (codex_stored ?f1) = Some (codex_new_account c t) \<and>
         dget (codex_new_account c t) ''refresh_token'' = JStr (cx_refresh_token c)"
    if tok: "cx_refresh_token c \<noteq> []" and h: "codex_upsert_target c (codex_stored f) = None"
  proof -
    note f = codex_upsert_appended [OF h tok]
    have "get_active_account (codex_stored ?f1)
            = Some (accounts (codex_stored ?f1) ! length (accounts (codex_stored f)))"
      by (rule get_active_account_in_range) (simp_all add: f(1))
    then show ?thesis
      by (simp add: f(1) codex_new_account_fields)
  qed
  have c4: "\<not> known (cx_account_id c) \<and> \<not> known (cx_email c) \<Longrightarrow>
              codex_upsert_target c (codex_stored f) = None"
    by (simp add: codex_upsert_target_def)
  have c5: "length (accounts (codex_stored (upsert_codex_account c' t' ?f1)))
              = length (accounts (codex_stored ?f1)) \<and>
            active_index (codex_stored (upsert_codex_account c' t' ?f1)) = active_index (codex_stored ?f1)"
    if tok: "cx_refresh_token c \<noteq> []"
      and h: "(known (cx_account_id c) \<or> known (cx_email c)) \<and> cx_refresh_token c' \<noteq> [] \<and>
              cx_account_id c' = cx_account_id c \<and> cx_email c' = cx_email c"
  proof -
    have tgt: "codex_upsert_target c' (codex_stored ?f1) = Some (nat (active_index (codex_stored ?f1)))"
      using h tok by (simp add: codex_upsert_target_after)
    have "0 \<le> active_index (codex_stored ?f1)"
      by (cases "codex_upsert_target c (codex_stored f)")
         (simp_all add: codex_upsert_found(1) codex_upsert_appended(1) tok)
    moreover have "cx_refresh_token c' \<noteq> []" using h by simp
    ultimately show ?thesis
      using codex_upsert_found(1) [OF tgt, of t'] by simp
  qed
  from a1 a2 a3 a4 a5 c0 c1 c2 c3 c4 c5 show ?thesis
    by blast
qed

lemma stored_disk_of [simp]: "stored (disk_of s) = s"
  by (simp add: stored_def load_accounts_def disk_of_def)

lemma codex_stored_Content [simp]: "codex_stored (Content s) = s"
  by (simp add: codex_stored_def load_codex_accounts_def)

lemma codex_stored_Absent [simp]:
  "codex_stored Absent = \<lparr>version = 1, accounts = [], active_index = 0\<rparr>"
  by (simp add: codex_stored_def load_codex_accounts_def)

theorem upsert_by_identity_witness:
  "upsert_target refreshed_a (stored (disk_of store_active_last)) = Some 0 \<and>
   known (ag_email refreshed_a) \<and> ag_email refreshed_a = ag_email refreshed_a \<and>
   length (accounts (stored (upsert_account_from_auth refreshed_a 1000 (disk_of store_active_last)))) = 2 \<and>
   active_index (stored (upsert_account_from_auth refreshed_a 1000 (disk_of store_active_last))) = 0 \<and>
   dget (the (get_active_account
          (stored (upsert_account_from_auth refreshed_a 1000 (disk_of store_active_last)))))
        ''refreshToken'' = JStr ''rt-new'' \<and>
   length (accounts (stored (upsert_account_from_auth refreshed_a 2000
      (upsert_account_from_auth refreshed_a 1000 (disk_of store_active_last))))) = 2 \<and>
   active_index (stored (upsert_account_from_auth refreshed_a 2000
      (upsert_account_from_auth refreshed_a 1000 (disk_of store_active_last)))) = 0 \<and>
   \<not> known (ag_email anonymous_auth) \<and>
   upsert_target anonymous_auth (stored (disk_of store_active_last)) = None \<and>
   length (accounts (stored (upsert_account_from_auth anonymous_auth 1000 (disk_of store_active_last)))) = 3 \<and>
   cx_refresh_token codex_b \<noteq> [] \<and>
   codex_upsert_target codex_b (codex_stored (Content store_active_last)) = Some 1 \<and>
   length (accounts (codex_stored (upsert_codex_account codex_b 1000 (Content store_active_last)))) = 2 \<and>
   active_index (codex_stored (upsert_codex_account codex_b 1000 (Content store_active_last))) = 1 \<and>
   dget (the (get_active_account
          (codex_stored (upsert_codex_account codex_b 1000 (Content store_active_last)))))
        ''refresh_token'' = JStr ''rt-new'' \<and>
   length (accounts (codex_stored (upsert_codex_account codex_b 2000
      (upsert_codex_account codex_b 1000 (Content store_active_last))))) = 2 \<and>
   cx_refresh_token (codex_b\<lparr>cx_refresh_token := []\<rparr>) = [] \<and>
   upsert_codex_account (codex_b\<lparr>cx_refresh_token := []\<rparr>) 1000 Absent = Absent \<and>
   codex_upsert_target codex_b (codex_stored Absent) = None \<and>
   length (accounts (codex_stored (upsert_codex_account codex_b 1000 Absent))) = 1"
proof -
  have h1: "upsert_target refreshed_a store_active_last = Some 0"
    by (simp add: upsert_target_def refreshed_a_def store_active_last_def two_accounts_def dget_def)
  have h2: "known (ag_email refreshed_a)" "\<not> known (ag_email anonymous_auth)"
    by (simp_all add: refreshed_a_def anonymous_auth_def)
  have h3: "upsert_target anonymous_auth store_active_last = None"
    by (simp add: upsert_target_def anonymous_auth_def)
  have h4: "cx_refresh_token codex_b \<noteq> []" "known (cx_account_id codex_b)"
    by (simp_all add: codex_b_def)
  have h5: "codex_upsert_target codex_b store_active_last = Some 1"
    by (simp add: codex_upsert_target_def codex_b_def store_active_last_def two_accounts_def dget_def)
  have h6: "codex_upsert_target codex_b \<lparr>version = 1, accounts = [], active_index = 0\<rparr> = None"
    by (simp add: codex_upsert_target_def codex_b_def)
  have h7: "length (accounts store_active_last) = 2"
    by (simp add: store_active_last_def two_accounts_def)
  have h8: "ag_refresh_token refreshed_a = ''rt-new''" "cx_refresh_token codex_b = ''rt-new''"
    by (simp_all add: refreshed_a_def codex_b_def)
  show ?thesis
    using upsert_by_identity [where auth = refreshed_a and t = 1000 and d = "disk_of store_active_last"
          and auth' = refreshed_a and t' = 2000 and c = codex_b and f = "Content store_active_last"
          and c' = codex_b]
        upsert_by_identity [where auth = anonymous_auth and t = 1000 and d = "disk_of store_active_last"
          and auth' = anonymous_auth and t' = 2000 and c = "codex_b\<lparr>cx_refresh_token := []\<rparr>"
          and f = Absent and c' = codex_b]
        upsert_by_identity [where auth = anonymous_auth and t = 1000 and d = "disk_of store_active_last"
          and auth' = anonymous_auth and t' = 2000 and c = codex_b
          and f = Absent and c' = codex_b]
    by (simp add: h1 h2 h3 h4 h5 h6 h7 h8)
qed

text \<open>
  The claim as stated fails when the identity is unknown: a credential without email is
  not written to the active record. The active record keeps its old refresh token, a new
  record is appended, and a second upsert appends once more.
\<close>

theorem upsert_unknown_identity_counterexample:
  "\<not> known (ag_email anonymous_auth) \<and>
   get_active_account (stored (disk_of store_active_last)) = Some (two_accounts ! 1) \<and>
   length (accounts (stored (disk_of store_active_last))) = 2 \<and>
   length (accounts (stored (upsert_account_from_auth anonymous_auth 1000 (disk_of store_active_last)))) = 3 \<and>
   accounts (stored (upsert_account_from_auth anonymous_auth 1000 (disk_of store_active_last))) ! 1
     = two_accounts ! 1 \<and>
   length (accounts (stored (upsert_account_from_auth anonymous_auth 2000
     (upsert_account_from_auth anonymous_auth 1000 (disk_of store_active_last))))) = 4"
  by (simp add: upsert_account_from_auth_def upsert_target_def anonymous_auth_def
      store_active_last_def two_accounts_def get_active_account_def)

lemma upsert_active_token:
  "load_accounts (upsert_account_from_auth auth t d) = Some (stored (upsert_account_from_auth auth t d)) \<and>
   (\<exists>acc. get_active_account (stored (upsert_account_from_auth auth t d)) = Some acc \<and>
      dget acc ''refreshToken'' = JStr (ag_refresh_token auth))"
proof (cases "upsert_target auth (stored d)")
  case None
  note f = upsert_appended [OF None]
  have "get_active_account (stored (upsert_account_from_auth auth t d))
          = Some (accounts (stored (upsert_account_from_auth auth t d)) ! length (accounts (stored d)))"
    by (rule get_active_account_in_range) (simp_all add: f(1))
  then show ?thesis
    by (simp add: f new_account_fields)
next
  case (Some i)
  note f = upsert_found [OF Some]
  have "get_active_account (stored (upsert_account_from_auth auth t d))
          = Some (accounts (stored (upsert_account_from_auth auth t d)) ! i)"
    by (rule get_active_account_in_range) (simp_all add: f(1) f(3))
  then show ?thesis
    using f(3) by (simp add: f(1) f(2) updated_account_fields)
qed

lemma codex_upsert_active_token:
  assumes tok: "cx_refresh_token auth \<noteq> []"
  shows "load_codex_accounts (upsert_codex_account auth t f)
           = Some (codex_stored (upsert_codex_account auth t f)) \<and>
   (\<exists>acc. get_active_account (codex_stored (upsert_codex_account auth t f)) = Some acc \<and>
      dget acc ''refresh_token'' = JStr (cx_refresh_token auth))"
proof (cases "codex_upsert_target auth (codex_stored f)")
  case None
  note g = codex_upsert_appended [OF None tok]
  have "get_active_account (codex_stored (upsert_codex_account auth t f))
          = Some (accounts (codex_stored (upsert_codex_account auth t f)) ! length (accounts (codex_stored f)))"
    by (rule get_active_account_in_range) (simp_all add: g(1))
  then show ?thesis
    by (simp add: g codex_new_account_fields)
next
  case (Some i)
  note g = codex_upsert_found [OF Some tok]
  have "get_active_account (codex_stored (upsert_codex_account auth t f))
          = Some (accounts (codex_stored (upsert_codex_account auth t f)) ! i)"
    by (rule get_active_account_in_range) (simp_all add: g(1) g(3))
  then show ?thesis
    using g(3) by (simp add: g(1) g(2) codex_updated_account_fields)
qed

subsection \<open>C6: a refresh response without a new refresh token\<close>

text \<open>
  C6. When a refresh succeeds and the token response has no \<open>refresh_token\<close> field, the
  credential returned carries the refresh token of the credential that was refreshed, and
  the store is saved with that refresh token in its active record. This holds for
  \<open>refresh_access_token\<close> (Antigravity) and for \<open>refresh_codex_token\<close> (Codex).
\<close>

theorem refresh_keeps_refresh_token:
  "(ag_refresh_token a \<noteq> [] \<and> td_refresh_token td = None \<longrightarrow>
      (\<exists>refreshed.
         fst (refresh_access_token repr fetch_project_id start_time now_ms (TokenSuccess (TokenData td)) a d)
           = Inr refreshed \<and>
         ag_refresh_token refreshed = ag_refresh_token a \<and>
         (\<exists>s acc.
            load_accounts
              (snd (refresh_access_token repr fetch_project_id start_time now_ms
                      (TokenSuccess (TokenData td)) a d)) = Some s \<and>
            get_active_account s = Some acc \<and>
            dget acc ''refreshToken'' = JStr (ag_refresh_token a)))) \<and>
   (cx_refresh_token c \<noteq> [] \<and> td_refresh_token td = None \<longrightarrow>
      (\<exists>refreshed.
         fst (refresh_codex_token repr extract_account_id extract_account_email start_time now_ms
                (TokenSuccess (TokenData td)) c f) = Inr refreshed \<and>
         cx_refresh_token refreshed = cx_refresh_token c \<and>
         (\<exists>s acc.
            load_codex_accounts
              (snd (refresh_codex_token repr extract_account_id extract_account_email start_time now_ms
                      (TokenSuccess (TokenData td)) c f)) = Some s \<and>
            get_active_account s = Some acc \<and>
            dget acc ''refresh_token'' = JStr (cx_refresh_token c))))"
proof (intro conjI impI)
  assume h: "ag_refresh_token a \<noteq> [] \<and> td_refresh_token td = None"
  obtain refreshed where r:
    "refresh_access_token repr fetch_project_id start_time now_ms (TokenSuccess (TokenData td)) a d
       = (Inr refreshed, upsert_account_from_auth refreshed now_ms d)"
    "ag_refresh_token refreshed = ag_refresh_token a"
    using h by (simp add: refresh_access_token_def Let_def)
  from upsert_active_token [of refreshed now_ms d] r(2)
  have "\<exists>s acc. load_accounts (upsert_account_from_auth refreshed now_ms d) = Some s \<and>
          get_active_account s = Some acc \<and> dget acc ''refreshToken'' = JStr (ag_refresh_token a)"
    by auto
  with r show "\<exists>refreshed.
         fst (refresh_access_token repr fetch_project_id start_time now_ms (TokenSuccess (TokenData td)) a d)
           = Inr refreshed \<and>
         ag_refresh_token refreshed = ag_refresh_token a \<and>
         (\<exists>s acc.
            load_accounts
              (snd (refresh_access_token repr fetch_project_id start_time now_ms
                      (TokenSuccess (TokenData td)) a d)) = Some s \<and>
            get_active_account s = Some acc \<and>
            dget acc ''refreshToken'' = JStr (ag_refresh_token a))"
    by simp
next
  assume h: "cx_refresh_token c \<noteq> [] \<and> td_refresh_token td = None"
  obtain refreshed where r:
    "refresh_codex_token repr extract_account_id extract_account_email start_time now_ms
       (TokenSuccess (TokenData td)) c f = (Inr refreshed, upsert_codex_account refreshed now_ms f)"
    "cx_refresh_token refreshed = cx_refresh_token c"
    using h by (simp add: refresh_codex_token_def Let_def)
  from r(2) h have "cx_refresh_token refreshed \<noteq> []" by simp
  from codex_upsert_active_token [OF this, of now_ms f] r(2)
  have "\<exists>s acc. load_codex_accounts (upsert_codex_account refreshed now_ms f) = Some s \<and>
          get_active_account s = Some acc \<and> dget acc ''refresh_token'' = JStr (cx_refresh_token c)"
    by auto
  with r show "\<exists>refreshed.
         fst (refresh_codex_token repr extract_account_id extract_account_email start_time now_ms
                (TokenSuccess (TokenData td)) c f) = Inr refreshed \<and>
         cx_refresh_token refreshed = cx_refresh_token c \<and>
         (\<exists>s acc.
            load_codex_accounts
              (snd (refresh_codex_token repr extract_account_id extract_account_email start_time now_ms
                      (TokenSuccess (TokenData td)) c f)) = Some s \<and>
            get_active_account s = Some acc \<and>
            dget acc ''refresh_token'' = JStr (cx_refresh_token c))"
    by simp
qed

theorem refresh_keeps_refresh_token_witness:
  "ag_refresh_token stale_a \<noteq> [] \<and> cx_refresh_token stale_codex_b \<noteq> [] \<and>
   td_refresh_token token_without_refresh = None \<and>
   map_sum id ag_refresh_token
     (fst (refresh_access_token (\<lambda>v. []) (\<lambda>tok. []) 2000 2000000
            (TokenSuccess (TokenData token_without_refresh)) stale_a (disk_of store_active_last)))
     = Inr ''rt-a'' \<and>
   dget (the (get_active_account (the (load_accounts
     (snd (refresh_access_token (\<lambda>v. []) (\<lambda>tok. []) 2000 2000000
            (TokenSuccess (TokenData token_without_refresh)) stale_a (disk_of store_active_last)))))))
     ''refreshToken'' = JStr ''rt-a'' \<and>
   map_sum id cx_refresh_token
     (fst (refresh_codex_token (\<lambda>v. []) (\<lambda>tok. None) (\<lambda>tok. None) 2000 2000000
            (TokenSuccess (TokenData token_without_refresh)) stale_codex_b (Content store_active_last)))
     = Inr ''rt-b'' \<and>
   dget (the (get_active_account (the (load_codex_accounts
     (snd (refresh_codex_token (\<lambda>v. []) (\<lambda>tok. None) (\<lambda>tok. None) 2000 2000000
            (TokenSuccess (TokenData token_without_refresh)) stale_codex_b (Content store_active_last)))))))
     ''refresh_token'' = JStr ''rt-b''"
proof -
  have h: "ag_refresh_token stale_a = ''rt-a''" "cx_refresh_token stale_codex_b = ''rt-b''"
    "td_refresh_token token_without_refresh = None"
    by (simp_all add: stale_a_def stale_codex_b_def token_without_refresh_def)
  show ?thesis
    using refresh_keeps_refresh_token [where a = stale_a and td = token_without_refresh
        and repr = "\<lambda>v. []" and fetch_project_id = "\<lambda>tok. []" and start_time = 2000
        and now_ms = 2000000 and d = "disk_of store_active_last" and c = stale_codex_b
        and extract_account_id = "\<lambda>tok. None" and extract_account_email = "\<lambda>tok. None"
        and f = "Content store_active_last"]
    by (auto simp: h)
qed








subsection \<open>C4: a refresh failure classified as revoked\<close>












subsection \<open>C3: a stream that ends without a completion marker\<close>




subsection \<open>C1: a retryable status and the next endpoint\<close>





subsection \<open>C7: the error raised when every attempt is used up\<close>






























end
